theory Spec2Isabelle
  imports Main
begin

section \<open>JavaScript strings\<close>

text \<open>
  The lobby component works on JavaScript strings. A string is a list of code units, and a
  \<open>char\<close> is a code unit below 256 (U+0000 to U+00FF).

  \<open>trim\<close> removes white space and line terminators from both ends. Below 256 these are
  TAB, LF, VT, FF, CR, SPACE and the no-break space U+00A0.
\<close>

definition isWhiteSpace :: "char \<Rightarrow> bool" where
  "isWhiteSpace c = (of_char c \<in> {9, 10, 11, 12, 13, 32, 160 :: nat})"

definition trim :: "string \<Rightarrow> string" where
  "trim s = rev (dropWhile isWhiteSpace (rev (dropWhile isWhiteSpace s)))"

text \<open>
  \<open>toUpperCase\<close> is the upper-casing of the Unicode standard. On a string of ASCII
  characters it maps \<open>a\<close>..\<open>z\<close> to \<open>A\<close>..\<open>Z\<close> and leaves every other character alone. What it
  does to a string with a character outside ASCII (the sharp s becomes \<open>SS\<close>, the micro
  sign and the y with diaeresis leave the code units below 256) is not defined here: it
  is the parameter \<open>up\<close>, of which a theorem assumes nothing but what it states.
\<close>

definition isASCII :: "string \<Rightarrow> bool" where
  "isASCII s = list_all (\<lambda>c. of_char c < (128 :: nat)) s"

definition upper_ascii :: "char \<Rightarrow> char" where
  "upper_ascii c =
     (let n = of_char c :: nat in if 97 \<le> n \<and> n \<le> 122 then char_of (n - 32) else c)"

definition toUpperCase :: "(string \<Rightarrow> string) \<Rightarrow> string \<Rightarrow> string" where
  "toUpperCase up s = (if isASCII s then map upper_ascii s else up s)"

text \<open>
  \<open>substring\<close> clips its indices to the string and swaps them when they come in the wrong
  order.
\<close>

definition substring :: "nat \<Rightarrow> nat \<Rightarrow> string \<Rightarrow> string" where
  "substring a b s = take (max a b - min a b) (drop (min a b) s)"

section \<open>Room codes\<close>

text \<open>
  \<^verbatim>\<open>Math.random().toString(36).substring(2, 8).toUpperCase()\<close>

  \<open>Math.random()\<close> is a number in \<open>[0, 1)\<close>. Its rendering in radix 36 is \<open>0\<close> for the
  number zero and otherwise \<open>0.\<close> followed by the digits of the fraction, \<open>0\<close>..\<open>9\<close> and
  \<open>a\<close>..\<open>z\<close>. The draw enters the model as that digit sequence (each digit a value below
  36, no digit for the number zero); which digits the engine prints for a given
  floating-point number is left open. The number one half is the single digit 18.
\<close>

type_synonym draw = "nat list"

definition digit_char :: "nat \<Rightarrow> char" where
  "digit_char d = (if d < 10 then char_of (48 + d) else char_of (87 + d))"

definition toString36 :: "draw \<Rightarrow> string" where
  "toString36 ds = (if ds = [] then ''0'' else ''0.'' @ map digit_char ds)"

definition generateRoomCode :: "(string \<Rightarrow> string) \<Rightarrow> draw \<Rightarrow> string" where
  "generateRoomCode up ds = toUpperCase up (substring 2 8 (toString36 ds))"

definition isBase36Upper :: "char \<Rightarrow> bool" where
  "isBase36Upper c =
     (let n = of_char c :: nat in (48 \<le> n \<and> n \<le> 57) \<or> (65 \<le> n \<and> n \<le> 90))"

section \<open>The store: tables \<open>rooms\<close> and \<open>players\<close>\<close>

text \<open>
  The two tables of the migration. A UUID is an opaque value and a timestamp a point on
  a discrete clock. Columns keep their names, prefixed by \<open>r_\<close> and \<open>p_\<close>.
\<close>

type_synonym uuid = nat
type_synonym timestamptz = nat

record Room =
  r_id :: uuid
  r_code :: string
  r_host_name :: string
  r_max_players :: int
  r_created_at :: timestamptz
  r_updated_at :: timestamptz

record Player =
  p_id :: uuid
  p_room_id :: uuid
  p_name :: string
  p_is_host :: bool
  p_joined_at :: timestamptz

record store =
  tbl_rooms :: "Room list"
  tbl_players :: "Player list"

text \<open>
  What the store and the network decide while one action of the client runs: the random
  draw behind the room code, the results of \<open>gen_random_uuid()\<close> and \<open>now()\<close> for a row of
  either table, and whether the requests to each table are served. A request resolves
  with a pair of \<open>data\<close> and \<open>error\<close>, which is how \<open>hostRoom\<close>, \<open>joinRoom\<close> and
  \<open>fetchPlayers\<close> read it; one that is not served has its \<open>error\<close> set and leaves the store
  as it was.
\<close>

record env =
  random36 :: draw
  gen_room_uuid :: uuid
  gen_player_uuid :: uuid
  now_rooms :: timestamptz
  now_players :: timestamptz
  rooms_ok :: bool
  players_select_ok :: bool
  players_write_ok :: bool

datatype store_error = RequestFailed | UniqueViolation | ForeignKeyViolation | NotSingleRow

record room_insert =
  ins_code :: string
  ins_host_name :: string
  ins_max_players :: "int option"

record player_insert =
  ins_room_id :: uuid
  ins_name :: string
  ins_is_host :: "bool option"

definition default_max_players :: int where
  "default_max_players = 4"

definition insert_room :: "env \<Rightarrow> store \<Rightarrow> room_insert \<Rightarrow> store_error + (store \<times> Room)" where
  "insert_room e db v =
     (if \<not> rooms_ok e then Inl RequestFailed
      else if gen_room_uuid e \<in> r_id ` set (tbl_rooms db) then Inl UniqueViolation
      else if ins_code v \<in> r_code ` set (tbl_rooms db) then Inl UniqueViolation
      else
        let row = \<lparr>r_id = gen_room_uuid e, r_code = ins_code v, r_host_name = ins_host_name v,
                   r_max_players =
                     (case ins_max_players v of None \<Rightarrow> default_max_players | Some m \<Rightarrow> m),
                   r_created_at = now_rooms e, r_updated_at = now_rooms e\<rparr>
        in Inr (db\<lparr>tbl_rooms := tbl_rooms db @ [row]\<rparr>, row))"

definition insert_player :: "env \<Rightarrow> store \<Rightarrow> player_insert \<Rightarrow> store_error + (store \<times> Player)" where
  "insert_player e db v =
     (if \<not> players_write_ok e then Inl RequestFailed
      else if gen_player_uuid e \<in> p_id ` set (tbl_players db) then Inl UniqueViolation
      else if ins_room_id v \<notin> r_id ` set (tbl_rooms db) then Inl ForeignKeyViolation
      else
        let row = \<lparr>p_id = gen_player_uuid e, p_room_id = ins_room_id v, p_name = ins_name v,
                   p_is_host = (case ins_is_host v of None \<Rightarrow> False | Some b \<Rightarrow> b),
                   p_joined_at = now_players e\<rparr>
        in Inr (db\<lparr>tbl_players := tbl_players db @ [row]\<rparr>, row))"

text \<open>\<open>.single()\<close>: the one row of the result, an error when there is none or several.\<close>

definition single :: "'a list \<Rightarrow> store_error + 'a" where
  "single rows = (case rows of [r] \<Rightarrow> Inr r | _ \<Rightarrow> Inl NotSingleRow)"

definition select_room_by_code :: "env \<Rightarrow> store \<Rightarrow> string \<Rightarrow> store_error + Room" where
  "select_room_by_code e db c =
     (if \<not> rooms_ok e then Inl RequestFailed
      else single (filter (\<lambda>r. r_code r = c) (tbl_rooms db)))"

definition select_players :: "env \<Rightarrow> store \<Rightarrow> uuid \<Rightarrow> store_error + Player list" where
  "select_players e db rid =
     (if \<not> players_select_ok e then Inl RequestFailed
      else Inr (filter (\<lambda>p. p_room_id p = rid) (tbl_players db)))"

text \<open>
  \<open>.order('joined_at', { ascending: true })\<close>. Rows with the same \<open>joined_at\<close> are kept in
  table order here; the store promises no order among them.
\<close>

definition select_players_ordered :: "env \<Rightarrow> store \<Rightarrow> uuid \<Rightarrow> store_error + Player list" where
  "select_players_ordered e db rid =
     (if \<not> players_select_ok e then Inl RequestFailed
      else Inr (sort_key p_joined_at (filter (\<lambda>p. p_room_id p = rid) (tbl_players db))))"

definition delete_player :: "env \<Rightarrow> store \<Rightarrow> uuid \<Rightarrow> store_error + store" where
  "delete_player e db pid =
     (if \<not> players_write_ok e then Inl RequestFailed
      else Inr (db\<lparr>tbl_players := filter (\<lambda>p. p_id p \<noteq> pid) (tbl_players db)\<rparr>))"

text \<open>
  \<open>room_id ... REFERENCES public.rooms(id) ON DELETE CASCADE\<close>: the players that
  reference a deleted room row go with it.
\<close>

definition delete_room :: "env \<Rightarrow> store \<Rightarrow> uuid \<Rightarrow> store_error + store" where
  "delete_room e db rid =
     (if \<not> rooms_ok e then Inl RequestFailed
      else Inr (db\<lparr>tbl_rooms := filter (\<lambda>r. r_id r \<noteq> rid) (tbl_rooms db),
                    tbl_players :=
                      (if rid \<in> r_id ` set (tbl_rooms db)
                       then filter (\<lambda>p. p_room_id p \<noteq> rid) (tbl_players db)
                       else tbl_players db)\<rparr>))"

text \<open>The foreign key of \<open>players.room_id\<close>, as a property of a store.\<close>

definition fk_ok :: "store \<Rightarrow> bool" where
  "fk_ok db = (\<forall>p \<in> set (tbl_players db). p_room_id p \<in> r_id ` set (tbl_rooms db))"

section \<open>The lobby component\<close>

text \<open>
  The state of one \<open>GameLobby\<close> component: its seven \<open>useState\<close> cells. An action of the
  component runs against the store without another client in between, and returns the
  store, the component's state once its updates are applied, and the toasts it raised, in
  order. Writes to the console are left out.
\<close>

datatype view = landing | room

record lobby =
  currentView :: view
  playerName :: string
  roomCode :: string
  currentRoom :: "Room option"
  currentPlayer :: "Player option"
  players :: "Player list"
  loading :: bool

record toast =
  title :: string
  description :: string
  destructive :: bool

definition initial :: lobby where
  "initial = \<lparr>currentView = landing, playerName = [], roomCode = [], currentRoom = None,
               currentPlayer = None, players = [], loading = False\<rparr>"

definition toast_host_name_required :: toast where
  "toast_host_name_required =
     \<lparr>title = ''Player name required'',
      description = ''Please enter your name to host a room.'', destructive = True\<rparr>"

definition toast_room_created :: "string \<Rightarrow> toast" where
  "toast_room_created newRoomCode =
     \<lparr>title = ''Room created!'', description = ''Room code: '' @ newRoomCode,
      destructive = False\<rparr>"

definition toast_create_failed :: toast where
  "toast_create_failed =
     \<lparr>title = ''Error'', description = ''Failed to create room. Please try again.'',
      destructive = True\<rparr>"

definition toast_join_name_required :: toast where
  "toast_join_name_required =
     \<lparr>title = ''Player name required'',
      description = ''Please enter your name to join a room.'', destructive = True\<rparr>"

definition toast_code_required :: toast where
  "toast_code_required =
     \<lparr>title = ''Room code required'', description = ''Please enter a room code to join.'',
      destructive = True\<rparr>"

definition toast_room_not_found :: toast where
  "toast_room_not_found =
     \<lparr>title = ''Room not found'',
      description = ''Please check the room code and try again.'', destructive = True\<rparr>"

definition toast_room_full :: toast where
  "toast_room_full =
     \<lparr>title = ''Room full'', description = ''This room is already full.'',
      destructive = True\<rparr>"

definition toast_joined :: "(string \<Rightarrow> string) \<Rightarrow> string \<Rightarrow> toast" where
  "toast_joined up c =
     \<lparr>title = ''Joined room!'', description = ''Joined room: '' @ toUpperCase up c,
      destructive = False\<rparr>"

definition toast_join_failed :: toast where
  "toast_join_failed =
     \<lparr>title = ''Error'', description = ''Failed to join room. Please try again.'',
      destructive = True\<rparr>"

definition toast_left :: toast where
  "toast_left =
     \<lparr>title = ''Left room'', description = ''You have left the room.'', destructive = False\<rparr>"

definition toast_room_closed :: toast where
  "toast_room_closed =
     \<lparr>title = ''Room closed'', description = ''The host has closed the room.'',
      destructive = False\<rparr>"

definition toast_not_enough_players :: toast where
  "toast_not_enough_players =
     \<lparr>title = ''Not enough players'',
      description = ''At least 2 players are required to start the game.'',
      destructive = True\<rparr>"

subsection \<open>\<open>fetchPlayers\<close>\<close>

definition fetchPlayers :: "env \<Rightarrow> store \<Rightarrow> lobby \<Rightarrow> lobby" where
  "fetchPlayers e db s =
     (case currentRoom s of
        None \<Rightarrow> s
      | Some cr \<Rightarrow>
          (case select_players_ordered e db (r_id cr) of
             Inl error \<Rightarrow> s
           | Inr data \<Rightarrow> s\<lparr>players := data\<rparr>))"

subsection \<open>\<open>hostRoom\<close>\<close>

definition hostRoom ::
  "(string \<Rightarrow> string) \<Rightarrow> env \<Rightarrow> store \<Rightarrow> lobby \<Rightarrow> store \<times> lobby \<times> toast list" where
  "hostRoom up e db s =
     (if trim (playerName s) = [] then (db, s, [toast_host_name_required])
      else
        let newRoomCode = generateRoomCode up (random36 e) in
        (case insert_room e db
                \<lparr>ins_code = newRoomCode, ins_host_name = playerName s,
                 ins_max_players = Some 5\<rparr> of
           Inl roomError \<Rightarrow> (db, s\<lparr>loading := False\<rparr>, [toast_create_failed])
         | Inr (db1, roomData) \<Rightarrow>
             (case insert_player e db1
                     \<lparr>ins_room_id = r_id roomData, ins_name = playerName s,
                      ins_is_host = Some True\<rparr> of
                Inl playerError \<Rightarrow> (db1, s\<lparr>loading := False\<rparr>, [toast_create_failed])
              | Inr (db2, playerData) \<Rightarrow>
                  (db2,
                   s\<lparr>currentRoom := Some roomData, currentPlayer := Some playerData,
                     currentView := room, loading := False\<rparr>,
                   [toast_room_created newRoomCode]))))"

subsection \<open>\<open>joinRoom\<close>\<close>

definition joinRoom ::
  "(string \<Rightarrow> string) \<Rightarrow> env \<Rightarrow> store \<Rightarrow> lobby \<Rightarrow> store \<times> lobby \<times> toast list" where
  "joinRoom up e db s =
     (if trim (playerName s) = [] then (db, s, [toast_join_name_required])
      else if trim (roomCode s) = [] then (db, s, [toast_code_required])
      else
        (case select_room_by_code e db (toUpperCase up (roomCode s)) of
           Inl roomError \<Rightarrow> (db, s\<lparr>loading := False\<rparr>, [toast_room_not_found])
         | Inr roomData \<Rightarrow>
             (case select_players e db (r_id roomData) of
                Inl playersError \<Rightarrow> (db, s\<lparr>loading := False\<rparr>, [toast_join_failed])
              | Inr existingPlayers \<Rightarrow>
                  if int (length existingPlayers) \<ge> r_max_players roomData
                  then (db, s\<lparr>loading := False\<rparr>, [toast_room_full])
                  else
                    (case insert_player e db
                            \<lparr>ins_room_id = r_id roomData, ins_name = playerName s,
                             ins_is_host = Some False\<rparr> of
                       Inl playerError \<Rightarrow> (db, s\<lparr>loading := False\<rparr>, [toast_join_failed])
                     | Inr (db1, playerData) \<Rightarrow>
                         (db1,
                          s\<lparr>currentRoom := Some roomData, currentPlayer := Some playerData,
                            currentView := room, loading := False\<rparr>,
                          [toast_joined up (roomCode s)])))))"

subsection \<open>\<open>leaveRoom\<close>\<close>

text \<open>
  Neither \<open>await\<close> of \<open>leaveRoom\<close> reads the pair its request resolves with: the component
  goes on whether or not the store served the delete, and the \<open>catch\<close> block is not
  entered by a request that fails.
\<close>

definition leaveRoom :: "env \<Rightarrow> store \<Rightarrow> lobby \<Rightarrow> store \<times> lobby \<times> toast list" where
  "leaveRoom e db s =
     (case (currentPlayer s, currentRoom s) of
        (Some cp, Some cr) \<Rightarrow>
          let db1 = (case delete_player e db (p_id cp) of Inl error \<Rightarrow> db | Inr d \<Rightarrow> d);
              db2 = (if p_is_host cp
                     then (case delete_room e db1 (r_id cr) of Inl error \<Rightarrow> db1 | Inr d \<Rightarrow> d)
                     else db1)
          in (db2,
              s\<lparr>currentRoom := None, currentPlayer := None, players := [],
                currentView := landing, roomCode := []\<rparr>,
              [toast_left])
      | _ \<Rightarrow> (db, s, []))"

subsection \<open>The handler of a deleted room\<close>

definition roomDeleted :: "lobby \<Rightarrow> lobby \<times> toast list" where
  "roomDeleted s =
     (s\<lparr>currentRoom := None, currentPlayer := None, players := [], currentView := landing,
        roomCode := []\<rparr>,
      [toast_room_closed])"

subsection \<open>\<open>startGame\<close> and its button\<close>

definition is_host_local :: "lobby \<Rightarrow> bool" where
  "is_host_local s = (case currentPlayer s of None \<Rightarrow> False | Some cp \<Rightarrow> p_is_host cp)"

text \<open>The third component is the route \<open>navigate\<close> was called with, if it was called.\<close>

definition startGame :: "lobby \<Rightarrow> lobby \<times> toast list \<times> string option" where
  "startGame s =
     (if currentRoom s = None \<or> \<not> is_host_local s then (s, [], None)
      else if length (players s) < 2 then (s, [toast_not_enough_players], None)
      else (s, [], Some ''/game''))"

text \<open>
  The Start Game button of the room view: present for the host only, with its \<open>disabled\<close>
  flag and the number \<open>n\<close> of its label \<open>(Need n more)\<close> when the label is shown.
\<close>

record start_button =
  disabled :: bool
  need_more :: "int option"

definition startGameButton :: "lobby \<Rightarrow> start_button option" where
  "startGameButton s =
     (if currentView s = landing then None
      else if is_host_local s
      then Some \<lparr>disabled = (currentRoom s = None \<or> length (players s) < 2),
                 need_more =
                   (if currentRoom s \<noteq> None \<and> length (players s) < 2
                    then Some (2 - int (length (players s))) else None)\<rparr>
      else None)"

section \<open>Runs of one client\<close>

text \<open>
  What can happen to one client, one event at a time: the two text inputs, the buttons, the
  two change notifications of its subscription, and any change that other clients make to
  the store in between.
\<close>

datatype event =
    SetPlayerName string
  | SetRoomCode string
  | HostRoom
  | JoinRoom
  | LeaveRoom
  | StartGame
  | PlayersChanged
  | RoomDeleted
  | External store

fun step ::
  "(string \<Rightarrow> string) \<Rightarrow> store \<times> lobby \<Rightarrow> env \<times> event \<Rightarrow> store \<times> lobby" where
  "step up (db, s) (e, SetPlayerName v) = (db, s\<lparr>playerName := v\<rparr>)"
| "step up (db, s) (e, SetRoomCode v) = (db, s\<lparr>roomCode := toUpperCase up v\<rparr>)"
| "step up (db, s) (e, HostRoom) = (case hostRoom up e db s of (db', s', ts) \<Rightarrow> (db', s'))"
| "step up (db, s) (e, JoinRoom) = (case joinRoom up e db s of (db', s', ts) \<Rightarrow> (db', s'))"
| "step up (db, s) (e, LeaveRoom) = (case leaveRoom e db s of (db', s', ts) \<Rightarrow> (db', s'))"
| "step up (db, s) (e, StartGame) = (db, fst (startGame s))"
| "step up (db, s) (e, PlayersChanged) = (db, fetchPlayers e db s)"
| "step up (db, s) (e, RoomDeleted) = (db, fst (roomDeleted s))"
| "step up (db, s) (e, External db') = (db', s)"

definition run ::
  "(string \<Rightarrow> string) \<Rightarrow> store \<times> lobby \<Rightarrow> (env \<times> event) list \<Rightarrow> store \<times> lobby" where
  "run up c evs = foldl (step up) c evs"

section \<open>Properties of runs\<close>

definition roster_sorted :: "lobby \<Rightarrow> bool" where
  "roster_sorted s = sorted (map p_joined_at (players s))"

definition client_event :: "event \<Rightarrow> bool" where
  "client_event ev = (case ev of External db' \<Rightarrow> False | _ \<Rightarrow> True)"

definition all_rooms_five :: "store \<Rightarrow> bool" where
  "all_rooms_five db = list_all (\<lambda>r. r_max_players r = 5) (tbl_rooms db)"

section \<open>A scenario\<close>

text \<open>
  Alice hosts and gets the room code \<open>ABC123\<close>; Bob joins with the code \<open>abc123\<close>; Carol
  arrives later. \<open>offline\<close> is a moment at which no request is served.
\<close>

definition alice_env :: env where
  "alice_env =
     \<lparr>random36 = [10, 11, 12, 1, 2, 3, 35, 7], gen_room_uuid = 1, gen_player_uuid = 10,
      now_rooms = 100, now_players = 100, rooms_ok = True,
      players_select_ok = True, players_write_ok = True\<rparr>"

definition bob_env :: env where
  "bob_env =
     \<lparr>random36 = [18], gen_room_uuid = 2, gen_player_uuid = 11,
      now_rooms = 200, now_players = 200, rooms_ok = True,
      players_select_ok = True, players_write_ok = True\<rparr>"

definition carol_env :: env where
  "carol_env =
     \<lparr>random36 = [], gen_room_uuid = 3, gen_player_uuid = 12,
      now_rooms = 300, now_players = 300, rooms_ok = True,
      players_select_ok = True, players_write_ok = True\<rparr>"

definition offline :: env where
  "offline =
     \<lparr>random36 = [18], gen_room_uuid = 4, gen_player_uuid = 13,
      now_rooms = 400, now_players = 400, rooms_ok = False,
      players_select_ok = False, players_write_ok = False\<rparr>"

definition room_abc :: Room where
  "room_abc = \<lparr>r_id = 1, r_code = ''ABC123'', r_host_name = ''Alice'', r_max_players = 5,
                r_created_at = 100, r_updated_at = 100\<rparr>"

definition alice :: Player where
  "alice = \<lparr>p_id = 10, p_room_id = 1, p_name = ''Alice'', p_is_host = True, p_joined_at = 100\<rparr>"

definition bob :: Player where
  "bob = \<lparr>p_id = 11, p_room_id = 1, p_name = ''Bob'', p_is_host = False, p_joined_at = 200\<rparr>"

definition store_empty :: store where
  "store_empty = \<lparr>tbl_rooms = [], tbl_players = []\<rparr>"

definition store_room_only :: store where
  "store_room_only = \<lparr>tbl_rooms = [room_abc], tbl_players = []\<rparr>"

definition store_alice :: store where
  "store_alice = \<lparr>tbl_rooms = [room_abc], tbl_players = [alice]\<rparr>"

definition store_alice_bob :: store where
  "store_alice_bob = \<lparr>tbl_rooms = [room_abc], tbl_players = [alice, bob]\<rparr>"

definition room_of_two :: Room where
  "room_of_two = room_abc\<lparr>r_max_players := 2\<rparr>"

definition store_full :: store where
  "store_full = \<lparr>tbl_rooms = [room_of_two], tbl_players = [alice, bob]\<rparr>"

definition alice_landing :: lobby where
  "alice_landing = initial\<lparr>playerName := ''Alice''\<rparr>"

definition alice_in_room :: lobby where
  "alice_in_room =
     alice_landing\<lparr>currentRoom := Some room_abc, currentPlayer := Some alice,
                   currentView := room, loading := False\<rparr>"

definition bob_landing :: lobby where
  "bob_landing = initial\<lparr>playerName := ''Bob'', roomCode := ''abc123''\<rparr>"

definition bob_in_room :: lobby where
  "bob_in_room =
     bob_landing\<lparr>currentRoom := Some room_abc, currentPlayer := Some bob,
                 currentView := room, loading := False\<rparr>"

definition carol_landing :: lobby where
  "carol_landing = initial\<lparr>playerName := ''Carol'', roomCode := ''ABC123''\<rparr>"

definition store_shuffled :: store where
  "store_shuffled = \<lparr>tbl_rooms = [room_abc], tbl_players = [bob, alice]\<rparr>"

definition scenario :: "(env \<times> event) list" where
  "scenario =
     [(alice_env, SetPlayerName ''Alice''), (alice_env, HostRoom),
      (bob_env, External store_shuffled), (bob_env, PlayersChanged)]"

section \<open>Strings: upper-casing and trimming\<close>

text \<open>
  On ASCII strings upper-casing is a map over the characters. Done twice it is the same as
  done once, and it keeps a blank string blank and any other string not blank.
\<close>

lemma isASCII_upper: "isASCII s \<Longrightarrow> isASCII (map upper_ascii s)"
  by (induction s) (auto simp: isASCII_def upper_ascii_def Let_def)

lemma upper_ascii_idem: "upper_ascii (upper_ascii c) = upper_ascii c"
  by (auto simp: upper_ascii_def Let_def)

lemma toUpperCase_ascii: "isASCII s \<Longrightarrow> toUpperCase up s = map upper_ascii s"
  by (simp add: toUpperCase_def)

lemma toUpperCase_idem_ascii:
  "isASCII s \<Longrightarrow> toUpperCase up (toUpperCase up s) = toUpperCase up s"
  by (simp add: toUpperCase_def isASCII_upper upper_ascii_idem)

lemma isWhiteSpace_upper_ascii:
  "of_char c < (128 :: nat) \<Longrightarrow> isWhiteSpace (upper_ascii c) = isWhiteSpace c"
  by (auto simp: upper_ascii_def isWhiteSpace_def Let_def)

lemma dropWhile_ws_upper:
  "isASCII s \<Longrightarrow>
   dropWhile isWhiteSpace (map upper_ascii s) = map upper_ascii (dropWhile isWhiteSpace s)"
  by (induction s) (simp_all add: isASCII_def isWhiteSpace_upper_ascii)

lemma isASCII_rev: "isASCII (rev s) = isASCII s"
  by (simp add: isASCII_def list_all_iff)

lemma isASCII_dropWhile: "isASCII s \<Longrightarrow> isASCII (dropWhile P s)"
  by (auto simp: isASCII_def list_all_iff dest: set_dropWhileD)

lemma trim_upper_ascii:
  assumes "isASCII s"
  shows "trim (map upper_ascii s) = map upper_ascii (trim s)"
proof -
  have a: "isASCII (rev (dropWhile isWhiteSpace s))"
    using assms by (simp add: isASCII_rev isASCII_dropWhile)
  have "trim (map upper_ascii s) =
        rev (dropWhile isWhiteSpace (map upper_ascii (rev (dropWhile isWhiteSpace s))))"
    using assms by (simp add: trim_def dropWhile_ws_upper rev_map)
  also have "\<dots> = rev (map upper_ascii (dropWhile isWhiteSpace (rev (dropWhile isWhiteSpace s))))"
    using a by (simp only: dropWhile_ws_upper)
  also have "\<dots> = map upper_ascii (trim s)"
    by (simp add: trim_def rev_map)
  finally show ?thesis .
qed

lemma trim_toUpperCase_blank_ascii:
  "isASCII s \<Longrightarrow> (trim (toUpperCase up s) = []) = (trim s = [])"
  by (simp add: toUpperCase_def trim_upper_ascii)

text \<open>The no-break space alone is a blank string.\<close>

lemma trim_nbsp: "trim [CHR 0xA0] = []"
  by code_simp

section \<open>The store keeps its foreign key\<close>

lemma insert_room_fk: "fk_ok db \<Longrightarrow> insert_room e db v = Inr (d, r) \<Longrightarrow> fk_ok d"
  by (auto simp: insert_room_def fk_ok_def Let_def split: if_splits)

lemma insert_player_fk: "fk_ok db \<Longrightarrow> insert_player e db v = Inr (d, p) \<Longrightarrow> fk_ok d"
  by (auto simp: insert_player_def fk_ok_def Let_def split: if_splits)

lemma delete_player_fk: "fk_ok db \<Longrightarrow> delete_player e db pid = Inr d \<Longrightarrow> fk_ok d"
  by (auto simp: delete_player_def fk_ok_def split: if_splits)

lemma delete_room_fk:
  assumes "fk_ok db" and "delete_room e db rid = Inr d"
  shows "fk_ok d"
proof -
  from assms(2) have d: "d = db\<lparr>tbl_rooms := filter (\<lambda>r. r_id r \<noteq> rid) (tbl_rooms db),
                    tbl_players :=
                      (if rid \<in> r_id ` set (tbl_rooms db)
                       then filter (\<lambda>p. p_room_id p \<noteq> rid) (tbl_players db)
                       else tbl_players db)\<rparr>"
    by (simp add: delete_room_def split: if_splits)
  show ?thesis
  proof (cases "rid \<in> r_id ` set (tbl_rooms db)")
    case True
    with assms(1) show ?thesis unfolding d fk_ok_def by auto
  next
    case False
    then have "filter (\<lambda>r. r_id r \<noteq> rid) (tbl_rooms db) = tbl_rooms db"
      by (auto simp: filter_id_conv)
    with False assms(1) show ?thesis unfolding d fk_ok_def by simp
  qed
qed

section \<open>Hosting\<close>

text \<open>A blank name stops \<open>hostRoom\<close> before any request.\<close>

lemma hostRoom_blank_name:
  "trim (playerName s) = [] \<Longrightarrow> hostRoom up e db s = (db, s, [toast_host_name_required])"
  by (simp add: hostRoom_def)

text \<open>
  C1. For every host action with a non-empty (non-whitespace) player name in which both
  store inserts succeed, exactly one Room row and exactly one Player row with
  \<open>is_host = true\<close> linked to that room are created, and the local client state becomes
  InRoom: view \<open>room\<close>, \<open>currentRoom\<close> and \<open>currentPlayer\<close> set to the created rows.

  When the trimmed name is not empty and the two inserts that \<open>hostRoom\<close> issues return the
  rows \<open>r\<close> and \<open>p\<close>, the action ends in the store of the second insert; the table of rooms
  has grown by \<open>r\<close> alone and the table of players by \<open>p\<close> alone, \<open>p\<close> is a host row of room
  \<open>r\<close>, and the component holds \<open>r\<close>, \<open>p\<close> and the view \<open>room\<close>.
\<close>

theorem hostRoom_creates_room_and_host:
  assumes "trim (playerName s) \<noteq> []"
    and "insert_room e db \<lparr>ins_code = generateRoomCode up (random36 e),
                            ins_host_name = playerName s, ins_max_players = Some 5\<rparr> =
         Inr (db1, r)"
    and "insert_player e db1 \<lparr>ins_room_id = r_id r, ins_name = playerName s,
                               ins_is_host = Some True\<rparr> = Inr (db2, p)"
  shows "hostRoom up e db s =
           (db2,
            s\<lparr>currentRoom := Some r, currentPlayer := Some p, currentView := room,
              loading := False\<rparr>,
            [toast_room_created (generateRoomCode up (random36 e))])
         \<and> tbl_rooms db2 = tbl_rooms db @ [r]
         \<and> tbl_players db2 = tbl_players db @ [p]
         \<and> p_is_host p \<and> p_room_id p = r_id r"
proof -
  have h: "hostRoom up e db s =
           (db2,
            s\<lparr>currentRoom := Some r, currentPlayer := Some p, currentView := room,
              loading := False\<rparr>,
            [toast_room_created (generateRoomCode up (random36 e))])"
    using assms by (simp add: hostRoom_def Let_def)
  from assms(2) have r: "db1 = db\<lparr>tbl_rooms := tbl_rooms db @ [r]\<rparr>"
    by (auto simp: insert_room_def Let_def split: if_splits)
  from assms(3) have p: "db2 = db1\<lparr>tbl_players := tbl_players db1 @ [p]\<rparr>"
      "p_is_host p" "p_room_id p = r_id r"
    by (auto simp: insert_player_def Let_def split: if_splits)
  from h r p show ?thesis by simp
qed

theorem hostRoom_creates_room_and_host_witness:
  "\<forall>up. hostRoom up alice_env store_empty alice_landing =
     (store_alice, alice_in_room, [toast_room_created ''ABC123''])
   \<and> tbl_rooms store_alice = tbl_rooms store_empty @ [room_abc]
   \<and> tbl_players store_alice = tbl_players store_empty @ [alice]
   \<and> p_is_host alice \<and> p_room_id alice = r_id room_abc"
proof
  fix up
  have n: "trim (playerName alice_landing) \<noteq> []" by code_simp
  have c: "generateRoomCode up (random36 alice_env) = ''ABC123''" by code_simp
  have r: "insert_room alice_env store_empty
             \<lparr>ins_code = generateRoomCode up (random36 alice_env),
              ins_host_name = playerName alice_landing, ins_max_players = Some 5\<rparr> =
           Inr (store_room_only, room_abc)"
    by code_simp
  have p: "insert_player alice_env store_room_only
             \<lparr>ins_room_id = r_id room_abc, ins_name = playerName alice_landing,
              ins_is_host = Some True\<rparr> =
           Inr (store_alice, alice)"
    by code_simp
  from hostRoom_creates_room_and_host [OF n r p] c
  show "hostRoom up alice_env store_empty alice_landing =
     (store_alice, alice_in_room, [toast_room_created ''ABC123''])
   \<and> tbl_rooms store_alice = tbl_rooms store_empty @ [room_abc]
   \<and> tbl_players store_alice = tbl_players store_empty @ [alice]
   \<and> p_is_host alice \<and> p_room_id alice = r_id room_abc"
    by (simp add: alice_in_room_def)
qed

section \<open>Joining\<close>

text \<open>
  A name or a code that is blank (empty once trimmed) stops the join before any request,
  with a report of its own.
\<close>

lemma joinRoom_blank_name:
  "trim (playerName s) = [] \<Longrightarrow> joinRoom up e db s = (db, s, [toast_join_name_required])"
  by (simp add: joinRoom_def)

lemma joinRoom_blank_code:
  "trim (playerName s) \<noteq> [] \<Longrightarrow> trim (roomCode s) = [] \<Longrightarrow>
   joinRoom up e db s = (db, s, [toast_code_required])"
  by (simp add: joinRoom_def)

text \<open>
  C2. For every join action where the number of existing Player rows for the looked-up
  room is greater than or equal to that room's \<open>max_players\<close> at check time, the join is
  rejected with a "room full" report, no Player row is created, and the local client
  state is unchanged (remains Landing).

  The join has passed its two checks of the inputs, the lookup has returned the room \<open>r\<close>
  and the query for its players the rows \<open>existing\<close>, at least \<open>max_players\<close> of them. Then
  the store is returned as it was, the only toast is "Room full", and of the component's
  state only \<open>loading\<close> is written, with the value it has whenever the button can be
  pressed.
\<close>

theorem joinRoom_full:
  assumes "trim (playerName s) \<noteq> []" and "trim (roomCode s) \<noteq> []"
    and "select_room_by_code e db (toUpperCase up (roomCode s)) = Inr r"
    and "select_players e db (r_id r) = Inr existing"
    and "int (length existing) \<ge> r_max_players r"
  shows "joinRoom up e db s = (db, s\<lparr>loading := False\<rparr>, [toast_room_full])
         \<and> (\<not> loading s \<longrightarrow> joinRoom up e db s = (db, s, [toast_room_full]))"
  using assms by (simp add: joinRoom_def)

theorem joinRoom_full_witness:
  "\<forall>up. int (length [alice, bob]) \<ge> r_max_players room_of_two
   \<and> joinRoom up carol_env store_full carol_landing =
       (store_full, carol_landing, [toast_room_full])"
proof
  fix up
  have n: "trim (playerName carol_landing) \<noteq> []" by code_simp
  have c: "trim (roomCode carol_landing) \<noteq> []" by code_simp
  have r: "select_room_by_code carol_env store_full (toUpperCase up (roomCode carol_landing)) =
             Inr room_of_two"
    by code_simp
  have e: "select_players carol_env store_full (r_id room_of_two) = Inr [alice, bob]"
    by code_simp
  have f: "int (length [alice, bob]) \<ge> r_max_players room_of_two" by code_simp
  have l: "\<not> loading carol_landing" by code_simp
  from joinRoom_full [OF n c r e f] l f
  show "int (length [alice, bob]) \<ge> r_max_players room_of_two
   \<and> joinRoom up carol_env store_full carol_landing =
       (store_full, carol_landing, [toast_room_full])"
    by simp
qed

text \<open>
  C4. For every join action with a non-empty name and a non-empty code that matches no
  existing room's code, the join fails with a not-found report and produces no side
  effects: no row is created or modified and the local client state is unchanged (remains
  Landing).

  Non-empty is the component's own test, as in C1: not empty once trimmed. The code
  matches a room when its upper-case form is the room's code, which is how the lookup
  compares. When no room matches, whatever the network does and whatever the upper-case
  form of the code is, the store is returned as it was, the only toast is "Room not
  found", and of the component's state only \<open>loading\<close> is written, with the value it has
  whenever the button can be pressed.
\<close>

theorem joinRoom_not_found:
  assumes "trim (playerName s) \<noteq> []" and "trim (roomCode s) \<noteq> []"
    and "\<forall>r \<in> set (tbl_rooms db). r_code r \<noteq> toUpperCase up (roomCode s)"
  shows "joinRoom up e db s = (db, s\<lparr>loading := False\<rparr>, [toast_room_not_found])
         \<and> (\<not> loading s \<longrightarrow> joinRoom up e db s = (db, s, [toast_room_not_found]))"
proof -
  from assms(3)
  have "filter (\<lambda>r. r_code r = toUpperCase up (roomCode s)) (tbl_rooms db) = []"
    by (simp add: filter_empty_conv)
  then have "\<exists>err. select_room_by_code e db (toUpperCase up (roomCode s)) = Inl err"
    by (simp add: select_room_by_code_def single_def)
  with assms(1,2) show ?thesis by (auto simp: joinRoom_def)
qed

theorem joinRoom_not_found_witness:
  "\<forall>up. list_all (\<lambda>r. r_code r \<noteq> toUpperCase up ''xyz789'') (tbl_rooms store_alice)
   \<and> joinRoom up bob_env store_alice (bob_landing\<lparr>roomCode := ''xyz789''\<rparr>) =
       (store_alice, bob_landing\<lparr>roomCode := ''xyz789''\<rparr>, [toast_room_not_found])"
proof
  fix up
  let ?s = "bob_landing\<lparr>roomCode := ''xyz789''\<rparr>"
  have n: "trim (playerName ?s) \<noteq> []" by code_simp
  have c: "trim (roomCode ?s) \<noteq> []" by code_simp
  have a: "list_all (\<lambda>r. r_code r \<noteq> toUpperCase up ''xyz789'') (tbl_rooms store_alice)"
    by code_simp
  then have r: "\<forall>r \<in> set (tbl_rooms store_alice). r_code r \<noteq> toUpperCase up (roomCode ?s)"
    by (simp add: list_all_iff)
  have l: "\<not> loading ?s" by code_simp
  from joinRoom_not_found [OF n c r, of bob_env] l a
  show "list_all (\<lambda>r. r_code r \<noteq> toUpperCase up ''xyz789'') (tbl_rooms store_alice)
   \<and> joinRoom up bob_env store_alice ?s = (store_alice, ?s, [toast_room_not_found])"
    by simp
qed

text \<open>
  C8. Joining is case-insensitive in the room code: for every state and every code string
  \<open>c\<close>, running the join action with code \<open>c\<close> produces the same room lookup and the same
  outcome as running it with the uppercase form of \<open>c\<close>, because the lookup always
  uppercases the code before comparison.

  Two properties of \<open>toUpperCase\<close> at the code \<open>c\<close> are what the statement rests on, and they
  are its hypotheses: upper-casing the upper-case form changes nothing, and the upper-case
  form is blank exactly when \<open>c\<close> is. Both are proved above for every ASCII string. Then the
  lookup made for the upper-case form of \<open>c\<close> is the lookup made for \<open>c\<close>, and the two joins
  end in the same store with the same toasts and in the same state of the component, but
  for the code the user typed, which neither of them writes.
\<close>

theorem joinRoom_case_insensitive:
  assumes "toUpperCase up (toUpperCase up c) = toUpperCase up c"
    and "(trim (toUpperCase up c) = []) = (trim c = [])"
  shows "select_room_by_code e db (toUpperCase up (toUpperCase up c)) =
           select_room_by_code e db (toUpperCase up c)
         \<and> joinRoom up e db (s\<lparr>roomCode := toUpperCase up c\<rparr>) =
             (case joinRoom up e db (s\<lparr>roomCode := c\<rparr>) of
                (db', s', ts) \<Rightarrow> (db', s'\<lparr>roomCode := toUpperCase up c\<rparr>, ts))"
  using assms by (simp add: joinRoom_def toast_joined_def split: sum.splits prod.splits)

theorem joinRoom_case_insensitive_witness:
  "\<forall>up. toUpperCase up ''abc123'' = ''ABC123''
   \<and> joinRoom up bob_env store_alice (bob_landing\<lparr>roomCode := ''abc123''\<rparr>) =
       (store_alice_bob, bob_in_room, [toast_joined up ''abc123''])
   \<and> joinRoom up bob_env store_alice (bob_landing\<lparr>roomCode := ''ABC123''\<rparr>) =
       (store_alice_bob, bob_in_room\<lparr>roomCode := ''ABC123''\<rparr>, [toast_joined up ''abc123''])"
proof
  fix up
  have a: "isASCII ''abc123''" by code_simp
  have u: "toUpperCase up ''abc123'' = ''ABC123''" by code_simp
  have j: "joinRoom up bob_env store_alice (bob_landing\<lparr>roomCode := ''abc123''\<rparr>) =
       (store_alice_bob, bob_in_room, [toast_joined up ''abc123''])"
    by code_simp
  from joinRoom_case_insensitive [of up "''abc123''" bob_env store_alice bob_landing,
      OF toUpperCase_idem_ascii [OF a] trim_toUpperCase_blank_ascii [OF a]] u j
  show "toUpperCase up ''abc123'' = ''ABC123''
   \<and> joinRoom up bob_env store_alice (bob_landing\<lparr>roomCode := ''abc123''\<rparr>) =
       (store_alice_bob, bob_in_room, [toast_joined up ''abc123''])
   \<and> joinRoom up bob_env store_alice (bob_landing\<lparr>roomCode := ''ABC123''\<rparr>) =
       (store_alice_bob, bob_in_room\<lparr>roomCode := ''ABC123''\<rparr>, [toast_joined up ''abc123''])"
    by simp
qed

text \<open>For an ASCII code the two properties hold, so nothing is assumed.\<close>

lemma joinRoom_case_insensitive_ascii:
  assumes "isASCII c"
  shows "joinRoom up e db (s\<lparr>roomCode := toUpperCase up c\<rparr>) =
           (case joinRoom up e db (s\<lparr>roomCode := c\<rparr>) of
              (db', s', ts) \<Rightarrow> (db', s'\<lparr>roomCode := toUpperCase up c\<rparr>, ts))"
  using toUpperCase_idem_ascii [OF assms, of up] trim_toUpperCase_blank_ascii [OF assms, of up]
  by (simp add: joinRoom_def toast_joined_def split: sum.splits prod.splits)

section \<open>Leaving\<close>

text \<open>
  When the store serves the two delete requests of a host who leaves, and satisfies its
  foreign key, no row with the player's id is left, no room row with the room's id, and no
  player row of that room; the component is back in the landing view with no room, no
  player, an empty roster and an empty code.
\<close>

lemma leaveRoom_host_cascade:
  assumes "currentPlayer s = Some cp" and "currentRoom s = Some cr" and "p_is_host cp"
    and "players_write_ok e" and "rooms_ok e" and "fk_ok db"
  shows "filter (\<lambda>p. p_id p = p_id cp) (tbl_players (fst (leaveRoom e db s))) = []
         \<and> filter (\<lambda>r. r_id r = r_id cr) (tbl_rooms (fst (leaveRoom e db s))) = []
         \<and> filter (\<lambda>p. p_room_id p = r_id cr) (tbl_players (fst (leaveRoom e db s))) = []
         \<and> snd (leaveRoom e db s) =
             (s\<lparr>currentRoom := None, currentPlayer := None, players := [],
                currentView := landing, roomCode := []\<rparr>, [toast_left])"
proof -
  define db1 where "db1 = db\<lparr>tbl_players := filter (\<lambda>p. p_id p \<noteq> p_id cp) (tbl_players db)\<rparr>"
  have d1: "delete_player e db (p_id cp) = Inr db1"
    using assms(4) by (simp add: delete_player_def db1_def)
  have fk1: "fk_ok db1" using assms(6) d1 by (rule delete_player_fk)
  define db2 where "db2 = db1\<lparr>tbl_rooms := filter (\<lambda>r. r_id r \<noteq> r_id cr) (tbl_rooms db1),
                    tbl_players :=
                      (if r_id cr \<in> r_id ` set (tbl_rooms db1)
                       then filter (\<lambda>p. p_room_id p \<noteq> r_id cr) (tbl_players db1)
                       else tbl_players db1)\<rparr>"
  have d2: "delete_room e db1 (r_id cr) = Inr db2"
    using assms(5) by (simp add: delete_room_def db2_def)
  have l: "leaveRoom e db s =
             (db2, s\<lparr>currentRoom := None, currentPlayer := None, players := [],
                currentView := landing, roomCode := []\<rparr>, [toast_left])"
    using assms(1-3) d1 d2 by (simp add: leaveRoom_def)
  have a: "filter (\<lambda>p. p_id p = p_id cp) (tbl_players db2) = []"
    by (auto simp: db2_def db1_def filter_empty_conv)
  have b: "filter (\<lambda>r. r_id r = r_id cr) (tbl_rooms db2) = []"
    by (auto simp: db2_def filter_empty_conv)
  have c: "filter (\<lambda>p. p_room_id p = r_id cr) (tbl_players db2) = []"
  proof (cases "r_id cr \<in> r_id ` set (tbl_rooms db1)")
    case True
    then show ?thesis by (simp add: db2_def filter_empty_conv)
  next
    case False
    with fk1 have "\<forall>p \<in> set (tbl_players db1). p_room_id p \<noteq> r_id cr"
      unfolding fk_ok_def by metis
    with False show ?thesis by (simp add: db2_def filter_empty_conv)
  qed
  from l a b c show ?thesis by simp
qed

lemma leaveRoom_host_cascade_example:
  "fk_ok store_alice_bob
   \<and> leaveRoom alice_env store_alice_bob alice_in_room =
       (store_empty,
        alice_in_room\<lparr>currentRoom := None, currentPlayer := None, players := [],
                      currentView := landing, roomCode := []\<rparr>,
        [toast_left])"
  by code_simp

text \<open>
  C3. For every leave action by a player whose \<open>is_host\<close> flag is true, the player's row
  and the room row are deleted and the foreign-key cascade removes all remaining Player
  rows of that room, leaving zero Room and zero Player rows for that room; the leaving
  client's local state returns to Landing.

  \<open>leaveRoom\<close> does not do this when the store does not serve its requests. Each delete
  resolves with an error that \<open>leaveRoom\<close> does not read, where \<open>hostRoom\<close>, \<open>joinRoom\<close> and
  \<open>fetchPlayers\<close> read theirs, and its \<open>catch\<close> block with "Failed to leave room." is not
  reached. Alice is the host of room \<open>ABC123\<close>, with Bob in it, and leaves while no request
  is served: she is told "Left room" and is back in the landing view, while the room row
  and both player rows of the room are in the store as before.
\<close>

theorem leaveRoom_host_unserved:
  "currentPlayer alice_in_room = Some alice
   \<and> currentRoom alice_in_room = Some room_abc
   \<and> p_is_host alice
   \<and> leaveRoom offline store_alice_bob alice_in_room =
       (store_alice_bob,
        alice_in_room\<lparr>currentRoom := None, currentPlayer := None, players := [],
                      currentView := landing, roomCode := []\<rparr>,
        [toast_left])
   \<and> tbl_rooms store_alice_bob = [room_abc]
   \<and> tbl_players store_alice_bob = [alice, bob]
   \<and> p_room_id alice = r_id room_abc \<and> p_room_id bob = r_id room_abc"
  by code_simp

text \<open>
  When the store serves the delete request of a player who leaves and is not the host, the
  store after the action is the store before it without the rows that carry the player's
  id: the table of rooms and every other player row, of this room and of any other, are
  as they were. The component is back in the landing view.
\<close>

lemma leaveRoom_guest_frame:
  assumes "currentPlayer s = Some cp" and "currentRoom s = Some cr" and "\<not> p_is_host cp"
    and "players_write_ok e"
  shows "leaveRoom e db s =
           (db\<lparr>tbl_players := filter (\<lambda>p. p_id p \<noteq> p_id cp) (tbl_players db)\<rparr>,
            s\<lparr>currentRoom := None, currentPlayer := None, players := [],
              currentView := landing, roomCode := []\<rparr>,
            [toast_left])"
  using assms by (simp add: leaveRoom_def delete_player_def)

lemma leaveRoom_guest_frame_example:
  "leaveRoom bob_env store_alice_bob bob_in_room =
     (store_alice,
      bob_in_room\<lparr>currentRoom := None, currentPlayer := None, players := [],
                  currentView := landing, roomCode := []\<rparr>,
      [toast_left])
   \<and> tbl_rooms store_alice = tbl_rooms store_alice_bob
   \<and> tbl_players store_alice = [alice]"
  by code_simp

text \<open>
  C5. For every leave action by a player whose \<open>is_host\<close> flag is false, only that
  player's row is deleted: the Room row and every other Player row of that room are
  unchanged, and the leaving client's local state returns to Landing.

  \<open>leaveRoom\<close> does not delete the player's row when the store does not serve the request:
  the delete resolves with an error that \<open>leaveRoom\<close> does not read, where \<open>hostRoom\<close>,
  \<open>joinRoom\<close> and \<open>fetchPlayers\<close> read theirs, and its \<open>catch\<close> block is not reached. Bob, who
  is not the host, leaves room \<open>ABC123\<close> while no request is served: he is told "Left room"
  and is back in the landing view, while his row is in the store as before.
\<close>

theorem leaveRoom_guest_unserved:
  "currentPlayer bob_in_room = Some bob
   \<and> currentRoom bob_in_room = Some room_abc
   \<and> \<not> p_is_host bob
   \<and> leaveRoom offline store_alice_bob bob_in_room =
       (store_alice_bob,
        bob_in_room\<lparr>currentRoom := None, currentPlayer := None, players := [],
                    currentView := landing, roomCode := []\<rparr>,
        [toast_left])
   \<and> filter (\<lambda>p. p_id p = p_id bob) (tbl_players store_alice_bob) = [bob]"
  by code_simp

section \<open>Starting the game\<close>

text \<open>
  C6. Start game succeeds only when invoked by the host with a local roster of size at
  least 2; for a roster of size below 2 it does not navigate and reports how many more
  players are needed (2 minus the roster size); for a non-host or absent room it has no
  effect.

  \<open>startGame\<close> navigates exactly when the component holds a room, its player is the host
  and the roster has two entries or more, and then to \<open>/game\<close>. With a room, the host and a
  shorter roster it does not navigate and raises "Not enough players", while the Start
  Game button of the room view is disabled and labelled with 2 minus the length of the
  roster. Without a room, or for a player who is not the host, it changes nothing, raises
  nothing and does not navigate.
\<close>

theorem startGame_host_two:
  "(snd (snd (startGame s)) = Some ''/game'' \<longleftrightarrow>
      currentRoom s \<noteq> None \<and> is_host_local s \<and> 2 \<le> length (players s))
   \<and> (snd (snd (startGame s)) \<noteq> Some ''/game'' \<longrightarrow> snd (snd (startGame s)) = None)
   \<and> (currentRoom s \<noteq> None \<and> is_host_local s \<and> length (players s) < 2 \<longrightarrow>
        startGame s = (s, [toast_not_enough_players], None)
        \<and> (currentView s = room \<longrightarrow>
             startGameButton s =
               Some \<lparr>disabled = True, need_more = Some (2 - int (length (players s)))\<rparr>))
   \<and> (currentRoom s = None \<or> \<not> is_host_local s \<longrightarrow> startGame s = (s, [], None))"
  by (auto simp: startGame_def startGameButton_def)

theorem startGame_host_two_witness:
  "startGame (alice_in_room\<lparr>players := [alice, bob]\<rparr>) =
     (alice_in_room\<lparr>players := [alice, bob]\<rparr>, [], Some ''/game'')
   \<and> startGame (alice_in_room\<lparr>players := [alice]\<rparr>) =
       (alice_in_room\<lparr>players := [alice]\<rparr>, [toast_not_enough_players], None)
   \<and> startGameButton (alice_in_room\<lparr>players := [alice]\<rparr>) =
       Some \<lparr>disabled = True, need_more = Some 1\<rparr>
   \<and> startGame (bob_in_room\<lparr>players := [alice, bob]\<rparr>) =
       (bob_in_room\<lparr>players := [alice, bob]\<rparr>, [], None)"
proof -
  let ?one = "alice_in_room\<lparr>players := [alice]\<rparr>"
  let ?guest = "bob_in_room\<lparr>players := [alice, bob]\<rparr>"
  have a: "currentRoom ?one \<noteq> None \<and> is_host_local ?one \<and> length (players ?one) < 2"
    by code_simp
  have v: "currentView ?one = room" by code_simp
  have n: "2 - int (length (players ?one)) = 1" by code_simp
  have g: "currentRoom ?guest = None \<or> \<not> is_host_local ?guest" by code_simp
  have two: "startGame (alice_in_room\<lparr>players := [alice, bob]\<rparr>) =
     (alice_in_room\<lparr>players := [alice, bob]\<rparr>, [], Some ''/game'')"
    by code_simp
  from startGame_host_two [of ?one] a v n
  have one: "startGame ?one = (?one, [toast_not_enough_players], None)
             \<and> startGameButton ?one = Some \<lparr>disabled = True, need_more = Some 1\<rparr>"
    by simp
  from startGame_host_two [of ?guest] g have guest: "startGame ?guest = (?guest, [], None)"
    by blast
  from one two guest show ?thesis by simp
qed

section \<open>The roster\<close>

lemma fetchPlayers_ok:
  "currentRoom s = Some cr \<Longrightarrow> players_select_ok e \<Longrightarrow>
   players (fetchPlayers e db s) =
     sort_key p_joined_at (filter (\<lambda>p. p_room_id p = r_id cr) (tbl_players db))"
  by (simp add: fetchPlayers_def select_players_ordered_def)

lemma fetchPlayers_sorted: "roster_sorted s \<Longrightarrow> roster_sorted (fetchPlayers e db s)"
  by (auto simp: roster_sorted_def fetchPlayers_def select_players_ordered_def
      split: option.splits sum.splits if_splits)

lemma hostRoom_players: "players (fst (snd (hostRoom up e db s))) = players s"
  by (simp add: hostRoom_def Let_def split: sum.splits prod.splits)

lemma joinRoom_players: "players (fst (snd (joinRoom up e db s))) = players s"
  by (simp add: joinRoom_def split: sum.splits prod.splits)

lemma leaveRoom_sorted: "roster_sorted s \<Longrightarrow> roster_sorted (fst (snd (leaveRoom e db s)))"
  by (simp add: leaveRoom_def roster_sorted_def Let_def split: option.splits)

lemma step_sorted: "roster_sorted (snd c) \<Longrightarrow> roster_sorted (snd (step up c ev))"
proof (cases c)
  case (Pair db s)
  assume inv: "roster_sorted (snd c)"
  obtain e a where ev: "ev = (e, a)" by (cases ev)
  show ?thesis
  proof (cases a)
    case HostRoom
    with inv Pair ev hostRoom_players [of up e db s] show ?thesis
      by (auto simp: roster_sorted_def split: prod.splits)
  next
    case JoinRoom
    with inv Pair ev joinRoom_players [of up e db s] show ?thesis
      by (auto simp: roster_sorted_def split: prod.splits)
  next
    case LeaveRoom
    with inv Pair ev leaveRoom_sorted [of s e db] show ?thesis
      by (auto split: prod.splits)
  next
    case PlayersChanged
    with inv Pair ev show ?thesis by (simp add: fetchPlayers_sorted)
  qed (use inv Pair ev in \<open>simp_all add: roster_sorted_def startGame_def roomDeleted_def\<close>)
qed

lemma run_sorted: "roster_sorted (snd c) \<Longrightarrow> roster_sorted (snd (run up c evs))"
  unfolding run_def by (induction evs arbitrary: c) (simp_all add: step_sorted)

text \<open>
  C7. After every roster refresh that succeeds, the local roster equals the store's Player
  rows for the active room ordered ascending by \<open>joined_at\<close>; hence at all times the
  displayed roster is non-decreasing by join time, regardless of the order in which change
  events were delivered.

  A refresh whose query is served replaces the roster by the players of the room the
  component holds, sorted by \<open>joined_at\<close>. And after any sequence of events, whatever other
  clients did to the store in between, the roster of a component that started in its
  initial state is sorted by \<open>joined_at\<close>.
\<close>

theorem roster_ordered_by_joined_at:
  "(currentRoom s = Some cr \<and> players_select_ok e \<longrightarrow>
      players (fetchPlayers e db s) =
        sort_key p_joined_at (filter (\<lambda>p. p_room_id p = r_id cr) (tbl_players db))
      \<and> sorted (map p_joined_at (players (fetchPlayers e db s))))
   \<and> sorted (map p_joined_at (players (snd (run up (db0, initial) evs))))"
proof -
  have "roster_sorted (snd (db0, initial))" by (simp add: roster_sorted_def initial_def)
  then have "roster_sorted (snd (run up (db0, initial) evs))" by (rule run_sorted)
  then show ?thesis by (simp add: fetchPlayers_ok roster_sorted_def)
qed

theorem roster_ordered_by_joined_at_witness:
  "\<forall>up. tbl_players store_shuffled = [bob, alice]
   \<and> players (fetchPlayers bob_env store_shuffled alice_in_room) = [alice, bob]
   \<and> sorted (map p_joined_at (players (fetchPlayers bob_env store_shuffled alice_in_room)))
   \<and> players (snd (run up (store_empty, initial) scenario)) = [alice, bob]
   \<and> sorted (map p_joined_at (players (snd (run up (store_empty, initial) scenario))))"
proof
  fix up
  have r: "currentRoom alice_in_room = Some room_abc \<and> players_select_ok bob_env" by code_simp
  have t: "tbl_players store_shuffled = [bob, alice]" by code_simp
  have q: "sort_key p_joined_at
             (filter (\<lambda>p. p_room_id p = r_id room_abc) (tbl_players store_shuffled)) =
           [alice, bob]"
    by code_simp
  have u: "players (snd (run up (store_empty, initial) scenario)) = [alice, bob]" by code_simp
  from roster_ordered_by_joined_at [where s = alice_in_room and cr = room_abc and e = bob_env
      and db = store_shuffled and up = up and ?db0.0 = store_empty and evs = scenario] r t q u
  show "tbl_players store_shuffled = [bob, alice]
   \<and> players (fetchPlayers bob_env store_shuffled alice_in_room) = [alice, bob]
   \<and> sorted (map p_joined_at (players (fetchPlayers bob_env store_shuffled alice_in_room)))
   \<and> players (snd (run up (store_empty, initial) scenario)) = [alice, bob]
   \<and> sorted (map p_joined_at (players (snd (run up (store_empty, initial) scenario))))"
    by simp
qed

section \<open>Capacity\<close>

lemma hostRoom_rooms:
  "tbl_rooms (fst (hostRoom up e db s)) = tbl_rooms db
   \<or> (\<exists>r. tbl_rooms (fst (hostRoom up e db s)) = tbl_rooms db @ [r] \<and> r_max_players r = 5)"
  by (auto simp: hostRoom_def insert_room_def insert_player_def Let_def
      split: sum.splits prod.splits if_splits)

lemma joinRoom_rooms: "tbl_rooms (fst (joinRoom up e db s)) = tbl_rooms db"
  by (auto simp: joinRoom_def insert_player_def Let_def split: sum.splits prod.splits if_splits)

lemma leaveRoom_rooms: "set (tbl_rooms (fst (leaveRoom e db s))) \<subseteq> set (tbl_rooms db)"
  by (auto simp: leaveRoom_def delete_player_def delete_room_def Let_def
      split: option.splits sum.splits if_splits)

lemma step_five:
  assumes "all_rooms_five (fst c)" and "client_event (snd ev)"
  shows "all_rooms_five (fst (step up c ev))"
proof (cases c)
  case (Pair db s)
  obtain e a where ev: "ev = (e, a)" by (cases ev)
  show ?thesis
  proof (cases a)
    case HostRoom
    with assms Pair ev hostRoom_rooms [of up e db s] show ?thesis
      by (auto simp: all_rooms_five_def split: prod.splits)
  next
    case JoinRoom
    with assms Pair ev joinRoom_rooms [of up e db s] show ?thesis
      by (auto simp: all_rooms_five_def split: prod.splits)
  next
    case LeaveRoom
    with assms Pair ev leaveRoom_rooms [of e db s] show ?thesis
      by (auto simp: all_rooms_five_def list_all_iff split: prod.splits)
  qed (use assms Pair ev in \<open>simp_all add: client_event_def\<close>)
qed

lemma run_five:
  "all_rooms_five (fst c) \<Longrightarrow> list_all (\<lambda>ev. client_event (snd ev)) evs \<Longrightarrow>
   all_rooms_five (fst (run up c evs))"
  unfolding run_def by (induction evs arbitrary: c) (simp_all add: step_five)

text \<open>
  C9. The storage-level default for a room's \<open>max_players\<close> is 4, but every room created
  through the client's host action explicitly sets \<open>max_players\<close> to 5, so all
  client-created rooms have capacity 5.

  The column default is 4, and a room inserted without \<open>max_players\<close> gets it. A room that
  is in the table after \<open>hostRoom\<close> and was not there before has \<open>max_players = 5\<close>. So every
  room of a store that started empty and saw only the events of this client has
  \<open>max_players = 5\<close>.
\<close>

theorem max_players_default_4_client_5:
  "default_max_players = 4
   \<and> (insert_room e db \<lparr>ins_code = c, ins_host_name = h, ins_max_players = None\<rparr> = Inr (db', r)
        \<longrightarrow> r_max_players r = 4)
   \<and> (\<forall>r \<in> set (tbl_rooms (fst (hostRoom up e db s))).
         r \<in> set (tbl_rooms db) \<or> r_max_players r = 5)
   \<and> (list_all (\<lambda>ev. client_event (snd ev)) evs \<longrightarrow>
        list_all (\<lambda>r. r_max_players r = 5) (tbl_rooms (fst (run up (store_empty, t) evs))))"
proof (intro conjI impI)
  show "default_max_players = 4" by (simp add: default_max_players_def)
next
  assume "insert_room e db \<lparr>ins_code = c, ins_host_name = h, ins_max_players = None\<rparr> = Inr (db', r)"
  then show "r_max_players r = 4"
    by (auto simp: insert_room_def default_max_players_def Let_def split: if_splits)
next
  show "\<forall>r \<in> set (tbl_rooms (fst (hostRoom up e db s))).
          r \<in> set (tbl_rooms db) \<or> r_max_players r = 5"
    using hostRoom_rooms [of up e db s] by auto
next
  assume "list_all (\<lambda>ev. client_event (snd ev)) evs"
  moreover have "all_rooms_five (fst (store_empty, t))"
    by (simp add: all_rooms_five_def store_empty_def)
  ultimately have "all_rooms_five (fst (run up (store_empty, t) evs))"
    by (rule run_five [rotated])
  then show "list_all (\<lambda>r. r_max_players r = 5) (tbl_rooms (fst (run up (store_empty, t) evs)))"
    by (simp add: all_rooms_five_def)
qed

theorem max_players_default_4_client_5_witness:
  "\<forall>up. insert_room alice_env store_empty
     \<lparr>ins_code = ''ABC123'', ins_host_name = ''Alice'', ins_max_players = None\<rparr> =
     Inr (\<lparr>tbl_rooms = [room_abc\<lparr>r_max_players := 4\<rparr>], tbl_players = []\<rparr>,
          room_abc\<lparr>r_max_players := 4\<rparr>)
   \<and> r_max_players (room_abc\<lparr>r_max_players := 4\<rparr>) = 4
   \<and> tbl_rooms (fst (hostRoom up alice_env store_empty alice_landing)) = [room_abc]
   \<and> r_max_players room_abc = 5
   \<and> list_all (\<lambda>r. r_max_players r = 5)
       (tbl_rooms (fst (run up (store_empty, initial)
          [(alice_env, SetPlayerName ''Alice''), (alice_env, HostRoom)])))"
proof
  fix up
  let ?evs = "[(alice_env, SetPlayerName ''Alice''), (alice_env, HostRoom)]"
  have i: "insert_room alice_env store_empty
     \<lparr>ins_code = ''ABC123'', ins_host_name = ''Alice'', ins_max_players = None\<rparr> =
     Inr (\<lparr>tbl_rooms = [room_abc\<lparr>r_max_players := 4\<rparr>], tbl_players = []\<rparr>,
          room_abc\<lparr>r_max_players := 4\<rparr>)"
    by code_simp
  have h: "tbl_rooms (fst (hostRoom up alice_env store_empty alice_landing)) = [room_abc]"
    by code_simp
  have c: "list_all (\<lambda>ev. client_event (snd ev)) ?evs" by code_simp
  have e: "tbl_rooms store_empty = []" by code_simp
  from max_players_default_4_client_5 [where e = alice_env and db = store_empty
      and c = "''ABC123''" and h = "''Alice''"
      and db' = "\<lparr>tbl_rooms = [room_abc\<lparr>r_max_players := 4\<rparr>], tbl_players = []\<rparr>"
      and r = "room_abc\<lparr>r_max_players := 4\<rparr>" and s = alice_landing and evs = ?evs
      and t = initial and up = up] i h c e
  show "insert_room alice_env store_empty
     \<lparr>ins_code = ''ABC123'', ins_host_name = ''Alice'', ins_max_players = None\<rparr> =
     Inr (\<lparr>tbl_rooms = [room_abc\<lparr>r_max_players := 4\<rparr>], tbl_players = []\<rparr>,
          room_abc\<lparr>r_max_players := 4\<rparr>)
   \<and> r_max_players (room_abc\<lparr>r_max_players := 4\<rparr>) = 4
   \<and> tbl_rooms (fst (hostRoom up alice_env store_empty alice_landing)) = [room_abc]
   \<and> r_max_players room_abc = 5
   \<and> list_all (\<lambda>r. r_max_players r = 5)
       (tbl_rooms (fst (run up (store_empty, initial) ?evs)))"
    by simp
qed

section \<open>The shape of a room code\<close>

lemma digit_char_ascii: "d < 36 \<Longrightarrow> of_char (digit_char d) < (128 :: nat)"
  by (simp add: digit_char_def)

lemma isASCII_digits:
  "\<forall>d \<in> set ds. d < 36 \<Longrightarrow> isASCII (substring 2 8 (toString36 ds))"
  by (cases ds) (auto simp: isASCII_def substring_def toString36_def list_all_iff
      digit_char_ascii dest!: in_set_takeD)

lemma isBase36Upper_digit: "d < 36 \<Longrightarrow> isBase36Upper (upper_ascii (digit_char d))"
  by (auto simp: isBase36Upper_def upper_ascii_def digit_char_def Let_def)

lemma generateRoomCode_digits:
  "\<forall>d \<in> set ds. d < 36 \<Longrightarrow>
   generateRoomCode up ds = map (\<lambda>d. upper_ascii (digit_char d)) (take 6 ds)"
  using isASCII_digits [of ds]
  by (cases ds)
    (simp_all add: generateRoomCode_def toUpperCase_def substring_def toString36_def take_map)

text \<open>
  C10. For every possible value of the underlying random draw in \<open>[0, 1)\<close>, the generated
  room code is a string of at most 6 characters drawn from uppercase base-36 digits (\<open>0\<close>-\<open>9\<close>
  and \<open>A\<close>-\<open>Z\<close>); the length is not guaranteed to be exactly 6 (it can be shorter for some
  random values).

  Whatever fraction digits the draw is printed with, the code has six characters at most,
  each of them one of \<open>0\<close>..\<open>9\<close>, \<open>A\<close>..\<open>Z\<close>. The draw one half gives the code \<open>I\<close>, of one
  character, and the draw zero the empty code.
\<close>

theorem generateRoomCode_shape:
  "(\<forall>ds. (\<forall>d \<in> set ds. d < 36) \<longrightarrow>
      length (generateRoomCode up ds) \<le> 6
      \<and> (\<forall>c \<in> set (generateRoomCode up ds). isBase36Upper c))
   \<and> generateRoomCode up [18] = ''I''
   \<and> generateRoomCode up [] = []"
proof (intro conjI allI impI ballI)
  fix ds :: draw assume "\<forall>d \<in> set ds. d < 36"
  then show "length (generateRoomCode up ds) \<le> 6" by (simp add: generateRoomCode_digits)
next
  fix ds :: draw and c
  assume d: "\<forall>d \<in> set ds. d < 36" and c: "c \<in> set (generateRoomCode up ds)"
  from c d obtain d where "d \<in> set (take 6 ds)" "c = upper_ascii (digit_char d)"
    by (auto simp: generateRoomCode_digits)
  with d show "isBase36Upper c"
    by (auto dest: in_set_takeD intro: isBase36Upper_digit)
next
  show "generateRoomCode up [18] = ''I''" by code_simp
next
  show "generateRoomCode up [] = []" by code_simp
qed

theorem generateRoomCode_shape_witness:
  "\<forall>up. generateRoomCode up [10, 11, 12, 1, 2, 3, 35, 7] = ''ABC123''
   \<and> length (generateRoomCode up [10, 11, 12, 1, 2, 3, 35, 7]) \<le> 6
   \<and> list_all isBase36Upper (generateRoomCode up [10, 11, 12, 1, 2, 3, 35, 7])"
proof
  fix up
  have d: "\<forall>d \<in> set [10, 11, 12, 1, 2, 3, 35, 7 :: nat]. d < 36" by simp
  have c: "generateRoomCode up [10, 11, 12, 1, 2, 3, 35, 7] = ''ABC123''" by code_simp
  from generateRoomCode_shape [of up] d
  have "length (generateRoomCode up [10, 11, 12, 1, 2, 3, 35, 7]) \<le> 6
        \<and> (\<forall>c \<in> set (generateRoomCode up [10, 11, 12, 1, 2, 3, 35, 7]). isBase36Upper c)"
    by blast
  with c show "generateRoomCode up [10, 11, 12, 1, 2, 3, 35, 7] = ''ABC123''
   \<and> length (generateRoomCode up [10, 11, 12, 1, 2, 3, 35, 7]) \<le> 6
   \<and> list_all isBase36Upper (generateRoomCode up [10, 11, 12, 1, 2, 3, 35, 7])"
    by (simp add: list_all_iff)
qed

end
